theory Spec2Isabelle
  imports Complex_Main
begin

section \<open>The writable stream of reference-implementation/lib/writable-stream.js\<close>

text \<open>
  The development embeds one \<open>WritableStream\<close>, its \<open>WritableStreamDefaultController\<close> and
  all the \<open>WritableStreamDefaultWriter\<close> objects created on it. Streams do not share state,
  so a property of this system is a property of every stream.

  \<^item> Every JavaScript function of the file that touches the stream is a definition of the
    same name, a computation on the system state \<open>sys\<close> that either completes with a value
    or throws. A thrown value leaves the state as it was at the \<open>throw\<close>, as in JavaScript.
  \<^item> \<open>assert\<close> is Node's: it throws an \<open>AssertionError\<close>.
  \<^item> The underlying sink and the strategy's size function are the environment. A call of
    a sink method is recorded in \<open>sinkCalls\<close>; the settlement of the promise it returns
    arrives later as an event of its own, which runs the callback that the source
    registered with \<open>then\<close>. The sink and the size function do not call back into the
    stream while they run.
  \<^item> Brand checks (\<open>IsWritableStream(this)\<close> and its siblings) succeed: the operations
    are applied to objects of the right class only.
  \<^item> Error objects are modelled by their class and message.
\<close>

subsection \<open>Values\<close>

datatype js_value =
    Undefined
  | Null
  | JSNumber real
  | JSString string
  | TypeError string
  | RangeError string
  | AssertionError string

text \<open>A number handed in from outside (a high-water mark, the result of the size function).\<close>

datatype js_number = Finite real | PosInfinity | NegInfinity | NaN

datatype promise = Pending | Fulfilled js_value | Rejected js_value

text \<open>Calling a resolving function of a promise that is settled already does nothing.\<close>

definition settle :: "promise \<Rightarrow> promise \<Rightarrow> promise" where
  "settle new old = (if old = Pending then new else old)"

datatype stream_state = Writable | Closed | Errored

fun state_name :: "stream_state \<Rightarrow> string" where
  "state_name Writable = ''writable''"
| "state_name Closed = ''closed''"
| "state_name Errored = ''errored''"

text \<open>A queue entry is the string \<open>'close'\<close> or a write record \<open>{ chunk }\<close>.\<close>

datatype write_record = CloseSentinel | WriteRecord js_value

datatype size_result = SizeReturns js_number | SizeThrows js_value

datatype size_arg = SizeAbsent | SizeNotCallable | SizeFunction "js_value \<Rightarrow> size_result"

datatype sink_call = SinkStart | SinkWrite js_value | SinkClose | SinkAbort js_value

text \<open>\<open>{ _resolve, _reject, _reason }\<close>: the two functions belong to one promise.\<close>

datatype abort_request = AbortRequest (abort_promise: nat) (abort_reason: js_value)

subsection \<open>State\<close>

text \<open>
  A writer keeps its two promises and, for each, the pair of resolving functions or
  \<open>undefined\<close>. The six helper functions per promise at the end of the source are the only
  code that assigns these fields; each of them that stores a new promise either stores that
  promise's functions with it or requires the functions to be \<open>undefined\<close>. So the functions
  in a slot always belong to the promise in the slot, and the model keeps the promise's state
  with a flag for each function: \<open>True\<close> when the field holds the function.
\<close>

record writer =
  ownerWritableStream :: bool
  readyPromise :: promise
  readyPromise_resolve :: bool
  readyPromise_reject :: bool
  closedPromise :: promise
  closedPromise_resolve :: bool
  closedPromise_reject :: bool

text \<open>
  The fields of the stream (\<open>state\<close> to \<open>backpressure\<close>), of its controller (\<open>queue\<close> to
  \<open>strategyHWM\<close>), the writer objects by identity, the promises made for requests and
  returned by methods by identity, and the sink: the calls made on it and the promises of
  its methods that have not settled yet. A write request and a close request are the
  promise their two functions belong to. An entry of \<open>sinkAbortPending\<close> lists the promises
  that settle with the sink's \<open>abort\<close>.
\<close>

record sys =
  state :: stream_state
  storedError :: js_value
  writer_of :: "nat option"
  writeRequests :: "nat list"
  inflightWriteRequest :: "nat option"
  closeRequest :: "nat option"
  inflightCloseRequest :: "nat option"
  pendingAbortRequest :: "abort_request option"
  backpressure :: "bool option"
  queue :: "(write_record \<times> real) list"
  started :: bool
  strategySize :: "(js_value \<Rightarrow> size_result) option"
  strategyHWM :: real
  writers :: "nat \<Rightarrow> writer"
  nextWriter :: nat
  promises :: "nat \<Rightarrow> promise"
  nextPromise :: nat
  sinkCalls :: "sink_call list"
  startPending :: bool
  sinkWritePending :: nat
  sinkClosePending :: nat
  sinkAbortPending :: "nat list list"

subsection \<open>Computations that may throw\<close>

type_synonym 'a M = "sys \<Rightarrow> (js_value + 'a) \<times> sys"

definition returnM :: "'a \<Rightarrow> 'a M" where
  "returnM x = (\<lambda>s. (Inr x, s))"

definition throwM :: "js_value \<Rightarrow> 'a M" where
  "throwM e = (\<lambda>s. (Inl e, s))"

definition bindM :: "'a M \<Rightarrow> ('a \<Rightarrow> 'b M) \<Rightarrow> 'b M" where
  "bindM m f = (\<lambda>s. case m s of (Inl e, s') \<Rightarrow> (Inl e, s') | (Inr x, s') \<Rightarrow> f x s')"

definition thenM :: "unit M \<Rightarrow> 'b M \<Rightarrow> 'b M" where
  "thenM m k = bindM m (\<lambda>_. k)"

text \<open>A block of statements.\<close>

fun seqM :: "unit M list \<Rightarrow> unit M" where
  "seqM [] = returnM ()"
| "seqM (m # ms) = thenM m (seqM ms)"

definition getsM :: "(sys \<Rightarrow> 'a) \<Rightarrow> 'a M" where
  "getsM f = (\<lambda>s. (Inr (f s), s))"

definition modifyM :: "(sys \<Rightarrow> sys) \<Rightarrow> unit M" where
  "modifyM f = (\<lambda>s. (Inr (), f s))"

definition ifM :: "(sys \<Rightarrow> bool) \<Rightarrow> 'a M \<Rightarrow> 'a M \<Rightarrow> 'a M" where
  "ifM c t e = (\<lambda>s. if c s then t s else e s)"

definition whenM :: "(sys \<Rightarrow> bool) \<Rightarrow> unit M \<Rightarrow> unit M" where
  "whenM c t = ifM c t (returnM ())"

definition assertM :: "(sys \<Rightarrow> bool) \<Rightarrow> string \<Rightarrow> unit M" where
  "assertM c msg = ifM c (returnM ()) (throwM (AssertionError msg))"

subsection \<open>Promises\<close>

text \<open>\<open>new Promise(...)\<close>, \<open>Promise.resolve(v)\<close> and \<open>Promise.reject(e)\<close> make a new promise.\<close>

definition newPromise :: "promise \<Rightarrow> nat M" where
  "newPromise p =
     bindM (getsM nextPromise) (\<lambda>n.
     thenM (modifyM (\<lambda>s. s\<lparr>promises := (promises s)(n := p), nextPromise := Suc n\<rparr>))
       (returnM n))"

definition Promise_resolve :: "js_value \<Rightarrow> nat M" where
  "Promise_resolve v = newPromise (Fulfilled v)"

definition Promise_reject :: "js_value \<Rightarrow> nat M" where
  "Promise_reject e = newPromise (Rejected e)"

text \<open>\<open>request._resolve(v)\<close> and \<open>request._reject(e)\<close>.\<close>

definition request_resolve :: "nat \<Rightarrow> js_value \<Rightarrow> unit M" where
  "request_resolve p v =
     modifyM (\<lambda>s. s\<lparr>promises := (promises s)(p := settle (Fulfilled v) (promises s p))\<rparr>)"

definition request_reject :: "nat \<Rightarrow> js_value \<Rightarrow> unit M" where
  "request_reject p e =
     modifyM (\<lambda>s. s\<lparr>promises := (promises s)(p := settle (Rejected e) (promises s p))\<rparr>)"

subsection \<open>Helper functions for the writer's promises (the end of the source)\<close>

definition updWriter :: "nat \<Rightarrow> (writer \<Rightarrow> writer) \<Rightarrow> sys \<Rightarrow> sys" where
  "updWriter w f s = s\<lparr>writers := (writers s)(w := f (writers s w))\<rparr>"

definition defaultWriterClosedPromiseInitialize :: "nat \<Rightarrow> unit M" where
  "defaultWriterClosedPromiseInitialize w =
     modifyM (updWriter w (\<lambda>x. x\<lparr>closedPromise := Pending,
       closedPromise_resolve := True, closedPromise_reject := True\<rparr>))"

definition defaultWriterClosedPromiseInitializeAsRejected :: "nat \<Rightarrow> js_value \<Rightarrow> unit M" where
  "defaultWriterClosedPromiseInitializeAsRejected w reason =
     modifyM (updWriter w (\<lambda>x. x\<lparr>closedPromise := Rejected reason,
       closedPromise_resolve := False, closedPromise_reject := False\<rparr>))"

definition defaultWriterClosedPromiseInitializeAsResolved :: "nat \<Rightarrow> unit M" where
  "defaultWriterClosedPromiseInitializeAsResolved w =
     modifyM (updWriter w (\<lambda>x. x\<lparr>closedPromise := Fulfilled Undefined,
       closedPromise_resolve := False, closedPromise_reject := False\<rparr>))"

definition defaultWriterClosedPromiseReject :: "nat \<Rightarrow> js_value \<Rightarrow> unit M" where
  "defaultWriterClosedPromiseReject w reason = seqM [
     assertM (\<lambda>s. closedPromise_resolve (writers s w)) [],
     assertM (\<lambda>s. closedPromise_reject (writers s w)) [],
     modifyM (updWriter w (\<lambda>x. x\<lparr>closedPromise := settle (Rejected reason) (closedPromise x),
       closedPromise_resolve := False, closedPromise_reject := False\<rparr>))]"

definition defaultWriterClosedPromiseResetToRejected :: "nat \<Rightarrow> js_value \<Rightarrow> unit M" where
  "defaultWriterClosedPromiseResetToRejected w reason = seqM [
     assertM (\<lambda>s. \<not> closedPromise_resolve (writers s w)) [],
     assertM (\<lambda>s. \<not> closedPromise_reject (writers s w)) [],
     modifyM (updWriter w (\<lambda>x. x\<lparr>closedPromise := Rejected reason\<rparr>))]"

definition defaultWriterClosedPromiseResolve :: "nat \<Rightarrow> unit M" where
  "defaultWriterClosedPromiseResolve w = seqM [
     assertM (\<lambda>s. closedPromise_resolve (writers s w)) [],
     assertM (\<lambda>s. closedPromise_reject (writers s w)) [],
     modifyM (updWriter w (\<lambda>x. x\<lparr>closedPromise := settle (Fulfilled Undefined) (closedPromise x),
       closedPromise_resolve := False, closedPromise_reject := False\<rparr>))]"

definition defaultWriterReadyPromiseInitialize :: "nat \<Rightarrow> unit M" where
  "defaultWriterReadyPromiseInitialize w =
     modifyM (updWriter w (\<lambda>x. x\<lparr>readyPromise := Pending,
       readyPromise_resolve := True, readyPromise_reject := True\<rparr>))"

definition defaultWriterReadyPromiseInitializeAsRejected :: "nat \<Rightarrow> js_value \<Rightarrow> unit M" where
  "defaultWriterReadyPromiseInitializeAsRejected w reason =
     modifyM (updWriter w (\<lambda>x. x\<lparr>readyPromise := Rejected reason,
       readyPromise_resolve := False, readyPromise_reject := False\<rparr>))"

definition defaultWriterReadyPromiseInitializeAsResolved :: "nat \<Rightarrow> unit M" where
  "defaultWriterReadyPromiseInitializeAsResolved w =
     modifyM (updWriter w (\<lambda>x. x\<lparr>readyPromise := Fulfilled Undefined,
       readyPromise_resolve := False, readyPromise_reject := False\<rparr>))"

definition defaultWriterReadyPromiseReject :: "nat \<Rightarrow> js_value \<Rightarrow> unit M" where
  "defaultWriterReadyPromiseReject w reason = seqM [
     assertM (\<lambda>s. readyPromise_resolve (writers s w)) [],
     assertM (\<lambda>s. readyPromise_reject (writers s w)) [],
     modifyM (updWriter w (\<lambda>x. x\<lparr>readyPromise := settle (Rejected reason) (readyPromise x),
       readyPromise_resolve := False, readyPromise_reject := False\<rparr>))]"

definition defaultWriterReadyPromiseReset :: "nat \<Rightarrow> unit M" where
  "defaultWriterReadyPromiseReset w = seqM [
     assertM (\<lambda>s. \<not> readyPromise_resolve (writers s w)) [],
     assertM (\<lambda>s. \<not> readyPromise_reject (writers s w)) [],
     modifyM (updWriter w (\<lambda>x. x\<lparr>readyPromise := Pending,
       readyPromise_resolve := True, readyPromise_reject := True\<rparr>))]"

definition defaultWriterReadyPromiseResetToRejected :: "nat \<Rightarrow> js_value \<Rightarrow> unit M" where
  "defaultWriterReadyPromiseResetToRejected w reason = seqM [
     assertM (\<lambda>s. \<not> readyPromise_resolve (writers s w)) [],
     assertM (\<lambda>s. \<not> readyPromise_reject (writers s w)) [],
     modifyM (updWriter w (\<lambda>x. x\<lparr>readyPromise := Rejected reason\<rparr>))]"

definition defaultWriterReadyPromiseResolve :: "nat \<Rightarrow> unit M" where
  "defaultWriterReadyPromiseResolve w = seqM [
     assertM (\<lambda>s. readyPromise_resolve (writers s w)) [],
     assertM (\<lambda>s. readyPromise_reject (writers s w)) [],
     modifyM (updWriter w (\<lambda>x. x\<lparr>readyPromise := settle (Fulfilled Undefined) (readyPromise x),
       readyPromise_resolve := False, readyPromise_reject := False\<rparr>))]"

definition catchM :: "'a M \<Rightarrow> (js_value \<Rightarrow> 'a M) \<Rightarrow> 'a M" where
  "catchM m h = (\<lambda>s. case m s of (Inl e, s') \<Rightarrow> h e s' | (Inr x, s') \<Rightarrow> (Inr x, s'))"

subsection \<open>The queue with sizes (queue-with-sizes.js)\<close>

text \<open>
  Modelled from the spec: \<open>queue-with-sizes.js\<close> is not among the sources. Section 4.1 of
  the specification gives the four operations: \<open>enqueue(v, s)\<close> fails with \<open>InvalidSize\<close>
  when \<open>s\<close> is NaN, negative or not finite; \<open>dequeue()\<close> returns and removes the head
  value, \<open>undefined\<close> when empty; \<open>peek()\<close> returns the head value; \<open>totalSize()\<close> is the
  sum of the sizes of all current records.
\<close>

fun IsFiniteNonNegativeNumber :: "js_number \<Rightarrow> real option" where
  "IsFiniteNonNegativeNumber (Finite r) = (if 0 \<le> r then Some r else None)"
| "IsFiniteNonNegativeNumber _ = None"

definition InvalidSize :: js_value where
  "InvalidSize = RangeError ''InvalidSize''"

definition EnqueueValueWithSize :: "write_record \<Rightarrow> js_number \<Rightarrow> unit M" where
  "EnqueueValueWithSize v sz =
     (case IsFiniteNonNegativeNumber sz of
        None \<Rightarrow> throwM InvalidSize
      | Some r \<Rightarrow> modifyM (\<lambda>s. s\<lparr>queue := queue s @ [(v, r)]\<rparr>))"

definition PeekQueueValue :: "(write_record \<times> real) list \<Rightarrow> write_record option" where
  "PeekQueueValue q = (case q of [] \<Rightarrow> None | (v, _) # _ \<Rightarrow> Some v)"

definition DequeueValue :: "write_record option M" where
  "DequeueValue =
     bindM (getsM (\<lambda>s. PeekQueueValue (queue s))) (\<lambda>v.
     thenM (modifyM (\<lambda>s. s\<lparr>queue := tl (queue s)\<rparr>))
       (returnM v))"

definition GetTotalQueueSize :: "(write_record \<times> real) list \<Rightarrow> real" where
  "GetTotalQueueSize q = sum_list (map snd q)"

subsection \<open>The sink (helpers.js: PromiseInvokeOrNoop)\<close>

text \<open>
  \<open>PromiseInvokeOrNoop(sink, name, args)\<close> calls the method when the sink has it and returns
  a promise for its result, never throwing. The model records the call and that its promise
  is not settled yet.
\<close>

definition sink_called :: "sink_call \<Rightarrow> unit M" where
  "sink_called c = modifyM (\<lambda>s. s\<lparr>sinkCalls := sinkCalls s @ [c]\<rparr>)"

subsection \<open>Abstract operations for the WritableStream\<close>

definition IsWritableStreamLocked :: "sys \<Rightarrow> bool" where
  "IsWritableStreamLocked s = (if writer_of s = None then False else True)"

definition WritableStreamIsReadyForWrites :: "sys \<Rightarrow> bool" where
  "WritableStreamIsReadyForWrites s =
     (if state s = Writable \<and> pendingAbortRequest s = None \<and> closeRequest s = None \<and>
         backpressure s = Some True
      then True else False)"

definition WritableStreamHasOperationMarkedInflight :: "sys \<Rightarrow> bool" where
  "WritableStreamHasOperationMarkedInflight s =
     (if inflightWriteRequest s = None \<and> inflightCloseRequest s = None then False else True)"

definition WritableStreamMarkCloseRequestInflight :: "unit M" where
  "WritableStreamMarkCloseRequestInflight = seqM [
     assertM (\<lambda>s. inflightCloseRequest s = None) [],
     assertM (\<lambda>s. closeRequest s \<noteq> None) [],
     modifyM (\<lambda>s. s\<lparr>inflightCloseRequest := closeRequest s\<rparr>),
     modifyM (\<lambda>s. s\<lparr>closeRequest := None\<rparr>)]"

definition WritableStreamMarkFirstWriteRequestInflight :: "unit M" where
  "WritableStreamMarkFirstWriteRequestInflight = seqM [
     assertM (\<lambda>s. inflightWriteRequest s = None) ''there must be no pending write request'',
     assertM (\<lambda>s. length (writeRequests s) \<noteq> 0) ''writeRequests must not be empty'',
     modifyM (\<lambda>s. s\<lparr>inflightWriteRequest := Some (hd (writeRequests s)),
                     writeRequests := tl (writeRequests s)\<rparr>)]"

definition WritableStreamRejectClosedPromiseIfAny :: "unit M" where
  "WritableStreamRejectClosedPromiseIfAny =
     bindM (getsM writer_of) (\<lambda>writer.
       case writer of
         None \<Rightarrow> returnM ()
       | Some w \<Rightarrow> bindM (getsM storedError) (defaultWriterClosedPromiseReject w))"

definition WritableStreamRejectPendingAbortRequest :: "unit M" where
  "WritableStreamRejectPendingAbortRequest =
     bindM (getsM pendingAbortRequest) (\<lambda>r.
       case r of
         None \<Rightarrow> returnM ()
       | Some a \<Rightarrow> seqM [
           bindM (getsM storedError) (request_reject (abort_promise a)),
           modifyM (\<lambda>s. s\<lparr>pendingAbortRequest := None\<rparr>)])"

fun reject_each :: "nat list \<Rightarrow> js_value \<Rightarrow> unit M" where
  "reject_each [] e = returnM ()"
| "reject_each (p # ps) e = thenM (request_reject p e) (reject_each ps e)"

definition WritableStreamRejectPromisesInReactionToError :: "unit M" where
  "WritableStreamRejectPromisesInReactionToError = seqM [
     assertM (\<lambda>s. state s = Errored) [],
     bindM (getsM storedError) (\<lambda>e. seqM [
       bindM (getsM writeRequests) (\<lambda>rs. reject_each rs e),
       modifyM (\<lambda>s. s\<lparr>writeRequests := []\<rparr>),
       bindM (getsM closeRequest) (\<lambda>c.
         case c of
           None \<Rightarrow> returnM ()
         | Some p \<Rightarrow> seqM [
             assertM (\<lambda>s. inflightCloseRequest s = None) [],
             request_reject p e,
             modifyM (\<lambda>s. s\<lparr>closeRequest := None\<rparr>)])]),
     WritableStreamRejectClosedPromiseIfAny]"

definition WritableStreamUpdateBackpressure :: "bool \<Rightarrow> unit M" where
  "WritableStreamUpdateBackpressure bp = seqM [
     assertM (\<lambda>s. state s = Writable) [],
     assertM (\<lambda>s. closeRequest s = None) [],
     bindM (getsM writer_of) (\<lambda>writer.
       case writer of
         None \<Rightarrow> returnM ()
       | Some w \<Rightarrow>
           whenM (\<lambda>s. Some bp \<noteq> backpressure s)
             (if bp = True then defaultWriterReadyPromiseReset w
              else seqM [assertM (\<lambda>_. bp = False) [], defaultWriterReadyPromiseResolve w])),
     modifyM (\<lambda>s. s\<lparr>backpressure := Some bp\<rparr>)]"

text \<open>The third parameter \<open>isPending\<close> is optional in the source: \<open>None\<close> is \<open>undefined\<close>.\<close>

definition WritableStreamDefaultWriterEnsureReadyPromiseRejectedWith ::
    "js_value \<Rightarrow> bool option \<Rightarrow> unit M" where
  "WritableStreamDefaultWriterEnsureReadyPromiseRejectedWith error isPending =
     bindM (getsM writer_of) (\<lambda>writer.
       case writer of
         None \<Rightarrow> returnM ()
       | Some w \<Rightarrow>
           bindM (getsM (\<lambda>s. case isPending of
                               None \<Rightarrow> WritableStreamIsReadyForWrites s
                             | Some b \<Rightarrow> b)) (\<lambda>isPending'.
             if isPending' = True then defaultWriterReadyPromiseReject w error
             else defaultWriterReadyPromiseResetToRejected w error))"

definition WritableStreamFinishAbort :: "unit M" where
  "WritableStreamFinishAbort = seqM [
     modifyM (\<lambda>s. s\<lparr>state := Errored\<rparr>),
     modifyM (\<lambda>s. s\<lparr>storedError := TypeError ''Aborted''\<rparr>),
     WritableStreamRejectPromisesInReactionToError]"

text \<open>
  \<open>WritableStreamDefaultControllerAbort\<close> returns \<open>sinkAbortPromise.then(() => undefined)\<close>:
  a new promise that settles when the sink's \<open>abort\<close> does.
\<close>

definition WritableStreamDefaultControllerAbort :: "js_value \<Rightarrow> nat M" where
  "WritableStreamDefaultControllerAbort reason =
     thenM (modifyM (\<lambda>s. s\<lparr>queue := []\<rparr>))
    (thenM (sink_called (SinkAbort reason))
    (bindM (newPromise Pending) (\<lambda>p.
     thenM (modifyM (\<lambda>s. s\<lparr>sinkAbortPending := sinkAbortPending s @ [[p]]\<rparr>))
       (returnM p))))"

text \<open>\<open>promise.then(request._resolve, request._reject)\<close> for a promise of the sink's abort.\<close>

definition then_settle :: "nat \<Rightarrow> nat \<Rightarrow> unit M" where
  "then_settle p q =
     modifyM (\<lambda>s. s\<lparr>sinkAbortPending :=
       map (\<lambda>ps. if p \<in> set ps then ps @ [q] else ps) (sinkAbortPending s)\<rparr>)"

definition WritableStreamAbort :: "js_value \<Rightarrow> nat M" where
  "WritableStreamAbort reason =
     bindM (getsM state) (\<lambda>st.
       if st = Closed then Promise_resolve Undefined
       else if st = Errored then bindM (getsM storedError) Promise_reject
       else
         let error = TypeError ''Aborted'' in
         ifM (\<lambda>s. pendingAbortRequest s \<noteq> None) (Promise_reject error)
           (thenM (assertM (\<lambda>_. st = Writable) ''state must be writable or closing'')
           (thenM (WritableStreamDefaultWriterEnsureReadyPromiseRejectedWith error None)
           (ifM (\<lambda>s. WritableStreamHasOperationMarkedInflight s = False)
              (thenM WritableStreamFinishAbort (WritableStreamDefaultControllerAbort reason))
              (bindM (newPromise Pending) (\<lambda>p.
               thenM (modifyM (\<lambda>s. s\<lparr>pendingAbortRequest := Some (AbortRequest p reason)\<rparr>))
                 (returnM p)))))))"

subsection \<open>WritableStream API exposed for controllers\<close>

definition WritableStreamAddWriteRequest :: "nat M" where
  "WritableStreamAddWriteRequest =
     thenM (assertM (\<lambda>s. IsWritableStreamLocked s = True) [])
    (thenM (assertM (\<lambda>s. state s = Writable) [])
    (bindM (newPromise Pending) (\<lambda>p.
     thenM (modifyM (\<lambda>s. s\<lparr>writeRequests := writeRequests s @ [p]\<rparr>))
       (returnM p))))"

definition WritableStreamFinishInflightWrite :: "unit M" where
  "WritableStreamFinishInflightWrite =
     bindM (getsM inflightWriteRequest) (\<lambda>r.
       case r of
         None \<Rightarrow> throwM (AssertionError [])
       | Some p \<Rightarrow> seqM [
           request_resolve p Undefined,
           modifyM (\<lambda>s. s\<lparr>inflightWriteRequest := None\<rparr>),
           bindM (getsM state) (\<lambda>st.
             if st = Errored then seqM [
               WritableStreamRejectPendingAbortRequest,
               WritableStreamRejectPromisesInReactionToError]
             else
               ifM (\<lambda>s. pendingAbortRequest s = None) (returnM ())
                 (thenM WritableStreamFinishAbort
                 (bindM (getsM pendingAbortRequest) (\<lambda>a.
                    case a of
                      None \<Rightarrow> throwM (TypeError ''abortRequest is undefined'')
                    | Some abortRequest \<Rightarrow>
                        thenM (modifyM (\<lambda>s. s\<lparr>pendingAbortRequest := None\<rparr>))
                       (bindM (WritableStreamDefaultControllerAbort (abort_reason abortRequest))
                          (\<lambda>promise. then_settle promise (abort_promise abortRequest)))))))])"

definition WritableStreamFinishInflightWriteWithError :: "js_value \<Rightarrow> unit M" where
  "WritableStreamFinishInflightWriteWithError reason =
     bindM (getsM inflightWriteRequest) (\<lambda>r.
       case r of
         None \<Rightarrow> throwM (AssertionError [])
       | Some p \<Rightarrow> seqM [
           request_reject p reason,
           modifyM (\<lambda>s. s\<lparr>inflightWriteRequest := None\<rparr>),
           bindM (getsM state) (\<lambda>st.
           bindM (getsM (\<lambda>s. pendingAbortRequest s \<noteq> None)) (\<lambda>wasAborted.
           bindM (getsM WritableStreamIsReadyForWrites) (\<lambda>isReadyForWrites.
             if st = Errored then WritableStreamRejectPendingAbortRequest
             else seqM [
               assertM (\<lambda>_. st = Writable) [],
               modifyM (\<lambda>s. s\<lparr>state := Errored\<rparr>),
               modifyM (\<lambda>s. s\<lparr>storedError := reason\<rparr>),
               whenM (\<lambda>_. wasAborted = False)
                 (WritableStreamDefaultWriterEnsureReadyPromiseRejectedWith reason
                    (Some isReadyForWrites)),
               WritableStreamRejectPendingAbortRequest]))),
           WritableStreamRejectPromisesInReactionToError])"

definition WritableStreamFinishInflightClose :: "unit M" where
  "WritableStreamFinishInflightClose =
     bindM (getsM inflightCloseRequest) (\<lambda>r.
       case r of
         None \<Rightarrow> throwM (AssertionError [])
       | Some p \<Rightarrow> seqM [
           request_resolve p Undefined,
           modifyM (\<lambda>s. s\<lparr>inflightCloseRequest := None\<rparr>),
           bindM (getsM state) (\<lambda>st.
           bindM (getsM (\<lambda>s. pendingAbortRequest s \<noteq> None)) (\<lambda>wasAborted.
             if st = Errored then seqM [
               WritableStreamRejectPendingAbortRequest,
               WritableStreamRejectClosedPromiseIfAny]
             else
               thenM (assertM (\<lambda>_. st = Writable) [])
                 (if wasAborted = False then seqM [
                    bindM (getsM writer_of) (\<lambda>writer.
                      case writer of
                        None \<Rightarrow> returnM ()
                      | Some w \<Rightarrow> defaultWriterClosedPromiseResolve w),
                    modifyM (\<lambda>s. s\<lparr>state := Closed\<rparr>)]
                  else seqM [
                    bindM (getsM pendingAbortRequest) (\<lambda>a.
                      case a of
                        None \<Rightarrow> throwM (TypeError ''_pendingAbortRequest is undefined'')
                      | Some abortRequest \<Rightarrow>
                          request_resolve (abort_promise abortRequest) Undefined),
                    modifyM (\<lambda>s. s\<lparr>pendingAbortRequest := None\<rparr>),
                    modifyM (\<lambda>s. s\<lparr>state := Errored\<rparr>),
                    modifyM (\<lambda>s. s\<lparr>storedError :=
                      TypeError ''Abort requested but closed successfully''\<rparr>),
                    WritableStreamRejectClosedPromiseIfAny])))])"

definition WritableStreamFinishInflightCloseWithError :: "js_value \<Rightarrow> unit M" where
  "WritableStreamFinishInflightCloseWithError reason =
     bindM (getsM inflightCloseRequest) (\<lambda>r.
       case r of
         None \<Rightarrow> throwM (AssertionError [])
       | Some p \<Rightarrow> seqM [
           request_reject p reason,
           modifyM (\<lambda>s. s\<lparr>inflightCloseRequest := None\<rparr>),
           bindM (getsM state) (\<lambda>st.
           bindM (getsM (\<lambda>s. pendingAbortRequest s \<noteq> None)) (\<lambda>wasAborted.
             if st = Errored then WritableStreamRejectPendingAbortRequest
             else seqM [
               assertM (\<lambda>_. st = Writable) [],
               modifyM (\<lambda>s. s\<lparr>state := Errored\<rparr>),
               modifyM (\<lambda>s. s\<lparr>storedError := reason\<rparr>),
               whenM (\<lambda>_. wasAborted = False)
                 (WritableStreamDefaultWriterEnsureReadyPromiseRejectedWith reason (Some False)),
               WritableStreamRejectPendingAbortRequest])),
           WritableStreamRejectClosedPromiseIfAny])"

subsection \<open>Abstract operations for the WritableStreamDefaultController\<close>

definition WritableStreamDefaultControllerGetDesiredSize :: "sys \<Rightarrow> real" where
  "WritableStreamDefaultControllerGetDesiredSize s =
     (let queueSize = GetTotalQueueSize (queue s) in strategyHWM s - queueSize)"

definition WritableStreamDefaultControllerGetBackpressure :: "sys \<Rightarrow> bool" where
  "WritableStreamDefaultControllerGetBackpressure s =
     (let desiredSize = WritableStreamDefaultControllerGetDesiredSize s in desiredSize \<le> 0)"

definition WritableStreamDefaultControllerError :: "js_value \<Rightarrow> unit M" where
  "WritableStreamDefaultControllerError e = seqM [
     assertM (\<lambda>s. state s = Writable) [],
     bindM (getsM WritableStreamIsReadyForWrites) (\<lambda>isReadyForWrites. seqM [
       modifyM (\<lambda>s. s\<lparr>state := Errored\<rparr>),
       modifyM (\<lambda>s. s\<lparr>storedError := e\<rparr>),
       whenM (\<lambda>s. pendingAbortRequest s = None)
         (WritableStreamDefaultWriterEnsureReadyPromiseRejectedWith e (Some isReadyForWrites)),
       modifyM (\<lambda>s. s\<lparr>queue := []\<rparr>),
       whenM (\<lambda>s. WritableStreamHasOperationMarkedInflight s = False)
         WritableStreamRejectPromisesInReactionToError])]"

definition WritableStreamDefaultControllerErrorIfNeeded :: "js_value \<Rightarrow> unit M" where
  "WritableStreamDefaultControllerErrorIfNeeded e =
     whenM (\<lambda>s. state s = Writable) (WritableStreamDefaultControllerError e)"

text \<open>
  The two callbacks that \<open>WritableStreamDefaultControllerProcessClose\<close> registers on the
  promise of the sink's \<open>close\<close> are \<open>WritableStreamFinishInflightClose\<close> and
  \<open>WritableStreamFinishInflightCloseWithError\<close>; they run when that promise settles.
\<close>

definition WritableStreamDefaultControllerProcessClose :: "unit M" where
  "WritableStreamDefaultControllerProcessClose = seqM [
     WritableStreamMarkCloseRequestInflight,
     bindM DequeueValue (\<lambda>_. returnM ()),
     assertM (\<lambda>s. length (queue s) = 0)
       ''queue must be empty once the final write record is dequeued'',
     sink_called SinkClose,
     modifyM (\<lambda>s. s\<lparr>sinkClosePending := Suc (sinkClosePending s)\<rparr>)]"

definition WritableStreamDefaultControllerProcessWrite :: "js_value \<Rightarrow> unit M" where
  "WritableStreamDefaultControllerProcessWrite chunk = seqM [
     WritableStreamMarkFirstWriteRequestInflight,
     sink_called (SinkWrite chunk),
     modifyM (\<lambda>s. s\<lparr>sinkWritePending := Suc (sinkWritePending s)\<rparr>)]"

definition WritableStreamDefaultControllerAdvanceQueueIfNeeded :: "unit M" where
  "WritableStreamDefaultControllerAdvanceQueueIfNeeded =
     bindM (getsM state) (\<lambda>st.
       if st = Closed \<or> st = Errored then returnM ()
       else
         ifM (\<lambda>s. started s = False) (returnM ())
        (ifM (\<lambda>s. inflightWriteRequest s \<noteq> None) (returnM ())
        (ifM (\<lambda>s. length (queue s) = 0) (returnM ())
        (bindM (getsM (\<lambda>s. PeekQueueValue (queue s))) (\<lambda>writeRecord.
           case writeRecord of
             Some CloseSentinel \<Rightarrow> WritableStreamDefaultControllerProcessClose
           | Some (WriteRecord chunk) \<Rightarrow> WritableStreamDefaultControllerProcessWrite chunk
           | None \<Rightarrow> throwM (TypeError ''writeRecord is undefined''))))))"

text \<open>The callbacks of \<open>WritableStreamDefaultControllerProcessWrite\<close>.\<close>

definition ProcessWrite_fulfilled :: "unit M" where
  "ProcessWrite_fulfilled = seqM [
     WritableStreamFinishInflightWrite,
     bindM (getsM state) (\<lambda>st.
       if st = Errored then returnM ()
       else seqM [
         assertM (\<lambda>_. st = Writable) [],
         bindM DequeueValue (\<lambda>_. returnM ()),
         whenM (\<lambda>s. closeRequest s = None)
           (bindM (getsM WritableStreamDefaultControllerGetBackpressure)
              WritableStreamUpdateBackpressure),
         WritableStreamDefaultControllerAdvanceQueueIfNeeded])]"

definition ProcessWrite_rejected :: "js_value \<Rightarrow> unit M" where
  "ProcessWrite_rejected reason =
     bindM (getsM (\<lambda>s. state s = Errored)) (\<lambda>wasErrored. seqM [
       WritableStreamFinishInflightWriteWithError reason,
       assertM (\<lambda>s. state s = Errored) [],
       whenM (\<lambda>_. wasErrored = False) (modifyM (\<lambda>s. s\<lparr>queue := []\<rparr>))])"

text \<open>The callbacks of \<open>WritableStreamDefaultControllerStart\<close>.\<close>

definition Start_fulfilled :: "unit M" where
  "Start_fulfilled = seqM [
     modifyM (\<lambda>s. s\<lparr>started := True\<rparr>),
     WritableStreamDefaultControllerAdvanceQueueIfNeeded]"

definition Start_rejected :: "js_value \<Rightarrow> unit M" where
  "Start_rejected r = WritableStreamDefaultControllerErrorIfNeeded r"

subsection \<open>Abstract operations implementing the interface required by the WritableStream\<close>

definition WritableStreamDefaultControllerClose :: "unit M" where
  "WritableStreamDefaultControllerClose = seqM [
     EnqueueValueWithSize CloseSentinel (Finite 0),
     WritableStreamDefaultControllerAdvanceQueueIfNeeded]"

text \<open>
  A \<open>catch\<close> block of the source ends with \<open>return\<close>; the flag says whether the statements
  after the \<open>try\<close> run.
\<close>

definition WritableStreamDefaultControllerWrite :: "js_value \<Rightarrow> unit M" where
  "WritableStreamDefaultControllerWrite chunk =
     bindM (getsM strategySize) (\<lambda>strategySize'.
       case (case strategySize' of
               None \<Rightarrow> SizeReturns (Finite 1)
             | Some f \<Rightarrow> f chunk) of
         SizeThrows chunkSizeE \<Rightarrow> WritableStreamDefaultControllerErrorIfNeeded chunkSizeE
       | SizeReturns chunkSize \<Rightarrow>
           bindM (catchM (thenM (EnqueueValueWithSize (WriteRecord chunk) chunkSize)
                            (returnM True))
                    (\<lambda>enqueueE. thenM (WritableStreamDefaultControllerErrorIfNeeded enqueueE)
                                   (returnM False)))
             (\<lambda>enqueued.
                if enqueued then seqM [
                  whenM (\<lambda>s. state s = Writable \<and> closeRequest s = None)
                    (bindM (getsM WritableStreamDefaultControllerGetBackpressure)
                       WritableStreamUpdateBackpressure),
                  WritableStreamDefaultControllerAdvanceQueueIfNeeded]
                else returnM ()))"

subsection \<open>Abstract operations for the WritableStreamDefaultWriter\<close>

definition defaultWriterLockException :: "string \<Rightarrow> js_value" where
  "defaultWriterLockException name =
     TypeError (''Cannot '' @ name @ '' a stream using a released writer'')"

definition WritableStreamDefaultWriterAbort :: "nat \<Rightarrow> js_value \<Rightarrow> nat M" where
  "WritableStreamDefaultWriterAbort w reason =
     thenM (assertM (\<lambda>s. ownerWritableStream (writers s w)) [])
       (WritableStreamAbort reason)"

definition WritableStreamDefaultWriterClose :: "nat \<Rightarrow> nat M" where
  "WritableStreamDefaultWriterClose w =
     thenM (assertM (\<lambda>s. ownerWritableStream (writers s w)) [])
    (bindM (getsM state) (\<lambda>st.
       if st = Closed \<or> st = Errored then
         Promise_reject (TypeError (''The stream (in '' @ state_name st @
           '' state) is not in the writable state and cannot be closed''))
       else
         ifM (\<lambda>s. pendingAbortRequest s \<noteq> None) (Promise_reject (TypeError ''Aborted''))
        (thenM (assertM (\<lambda>_. st = Writable) [])
        (thenM (assertM (\<lambda>s. closeRequest s = None) [])
        (bindM (newPromise Pending) (\<lambda>p.
         thenM (seqM [
           modifyM (\<lambda>s. s\<lparr>closeRequest := Some p\<rparr>),
           whenM (\<lambda>s. backpressure s = Some True) (defaultWriterReadyPromiseResolve w),
           WritableStreamDefaultControllerClose])
           (returnM p)))))))"

definition WritableStreamDefaultWriterCloseWithErrorPropagation :: "nat \<Rightarrow> nat M" where
  "WritableStreamDefaultWriterCloseWithErrorPropagation w =
     thenM (assertM (\<lambda>s. ownerWritableStream (writers s w)) [])
    (bindM (getsM state) (\<lambda>st.
       ifM (\<lambda>s. (st = Writable \<and> closeRequest s \<noteq> None) \<or> st = Closed)
         (Promise_resolve Undefined)
         (if st = Errored then bindM (getsM storedError) Promise_reject
          else thenM (assertM (\<lambda>_. st = Writable) [])
                 (WritableStreamDefaultWriterClose w))))"


definition WritableStreamDefaultWriterRelease :: "nat \<Rightarrow> unit M" where
  "WritableStreamDefaultWriterRelease w = seqM [
     assertM (\<lambda>s. ownerWritableStream (writers s w)) [],
     assertM (\<lambda>s. writer_of s = Some w) [],
     (let releasedError = TypeError
        ''Writer was released and can no longer be used to monitor the stream's closedness''
      in bindM (getsM state) (\<lambda>st. seqM [
        WritableStreamDefaultWriterEnsureReadyPromiseRejectedWith releasedError None,
        ifM (\<lambda>s. st = Writable \<or> WritableStreamHasOperationMarkedInflight s = True)
          (defaultWriterClosedPromiseReject w releasedError)
          (defaultWriterClosedPromiseResetToRejected w releasedError),
        modifyM (\<lambda>s. s\<lparr>writer_of := None\<rparr>),
        modifyM (updWriter w (\<lambda>x. x\<lparr>ownerWritableStream := False\<rparr>))]))]"

definition WritableStreamDefaultWriterWrite :: "nat \<Rightarrow> js_value \<Rightarrow> nat M" where
  "WritableStreamDefaultWriterWrite w chunk =
     thenM (assertM (\<lambda>s. ownerWritableStream (writers s w)) [])
    (thenM (assertM (\<lambda>s. closeRequest s = None) [])
    (bindM (getsM state) (\<lambda>st.
       if st = Closed \<or> st = Errored then
         Promise_reject (TypeError (''The stream (in '' @ state_name st @
           '' state) is not in the writable state and cannot be written to''))
       else
         ifM (\<lambda>s. pendingAbortRequest s \<noteq> None) (Promise_reject (TypeError ''Aborted''))
        (thenM (assertM (\<lambda>_. st = Writable) [])
        (bindM WritableStreamAddWriteRequest (\<lambda>promise.
         thenM (WritableStreamDefaultControllerWrite chunk)
           (returnM promise)))))))"

subsection \<open>class WritableStreamDefaultWriter\<close>

definition blank_writer :: writer where
  "blank_writer = \<lparr>ownerWritableStream = False,
     readyPromise = Pending, readyPromise_resolve = False, readyPromise_reject = False,
     closedPromise = Pending, closedPromise_resolve = False, closedPromise_reject = False\<rparr>"

text \<open>The constructor returns the new writer object.\<close>

definition WritableStreamDefaultWriter_constructor :: "nat M" where
  "WritableStreamDefaultWriter_constructor =
     ifM (\<lambda>s. IsWritableStreamLocked s = True)
       (throwM (TypeError
          ''This stream has already been locked for exclusive writing by another writer''))
       (bindM (getsM nextWriter) (\<lambda>w.
        thenM (seqM [
          modifyM (\<lambda>s. s\<lparr>nextWriter := Suc w\<rparr>),
          modifyM (\<lambda>s. s\<lparr>writers := (writers s)(w := blank_writer\<lparr>ownerWritableStream := True\<rparr>)\<rparr>),
          modifyM (\<lambda>s. s\<lparr>writer_of := Some w\<rparr>),
          bindM (getsM state) (\<lambda>st.
            if st = Writable then seqM [
              ifM (\<lambda>s. pendingAbortRequest s \<noteq> None)
                (bindM (getsM storedError) (defaultWriterReadyPromiseInitializeAsRejected w))
                (ifM (\<lambda>s. closeRequest s = None \<and> backpressure s = Some True)
                   (defaultWriterReadyPromiseInitialize w)
                   (defaultWriterReadyPromiseInitializeAsResolved w)),
              defaultWriterClosedPromiseInitialize w]
            else if st = Closed then seqM [
              defaultWriterReadyPromiseInitializeAsResolved w,
              defaultWriterClosedPromiseInitializeAsResolved w]
            else seqM [
              assertM (\<lambda>_. st = Errored) ''state must be errored'',
              bindM (getsM storedError) (\<lambda>storedError'. seqM [
                defaultWriterReadyPromiseInitializeAsRejected w storedError',
                defaultWriterClosedPromiseInitializeAsRejected w storedError'])])])
          (returnM w)))"




definition Writer_abort :: "nat \<Rightarrow> js_value \<Rightarrow> nat M" where
  "Writer_abort w reason =
     ifM (\<lambda>s. ownerWritableStream (writers s w) = False)
       (Promise_reject (defaultWriterLockException ''abort''))
       (WritableStreamDefaultWriterAbort w reason)"

definition Writer_close :: "nat \<Rightarrow> nat M" where
  "Writer_close w =
     ifM (\<lambda>s. ownerWritableStream (writers s w) = False)
       (Promise_reject (defaultWriterLockException ''close''))
       (ifM (\<lambda>s. closeRequest s \<noteq> None)
          (Promise_reject (TypeError ''cannot close an already-closing stream''))
          (WritableStreamDefaultWriterClose w))"

definition Writer_releaseLock :: "nat \<Rightarrow> unit M" where
  "Writer_releaseLock w =
     ifM (\<lambda>s. ownerWritableStream (writers s w) = False)
       (returnM ())
       (thenM (assertM (\<lambda>s. writer_of s \<noteq> None) [])
          (WritableStreamDefaultWriterRelease w))"

definition Writer_write :: "nat \<Rightarrow> js_value \<Rightarrow> nat M" where
  "Writer_write w chunk =
     ifM (\<lambda>s. ownerWritableStream (writers s w) = False)
       (Promise_reject (defaultWriterLockException ''write to''))
       (ifM (\<lambda>s. closeRequest s \<noteq> None)
          (Promise_reject (TypeError ''Cannot write to an already-closed stream''))
          (WritableStreamDefaultWriterWrite w chunk))"

subsection \<open>class WritableStreamDefaultController\<close>

text \<open>
  Modelled from the spec: \<open>ValidateAndNormalizeQueuingStrategy\<close> is in \<open>helpers.js\<close>, which
  is not among the sources. Section 4.2 of the specification: the controller "validates
  \<open>hwm\<close> is a non-negative finite number; validates \<open>sizeFn\<close> is callable or absent".
  The specification does not name the class of the two errors.
\<close>

definition ValidateAndNormalizeQueuingStrategy ::
    "size_arg \<Rightarrow> js_number \<Rightarrow> js_value + ((js_value \<Rightarrow> size_result) option \<times> real)" where
  "ValidateAndNormalizeQueuingStrategy sz highWaterMark =
     (case IsFiniteNonNegativeNumber highWaterMark of
        None \<Rightarrow> Inl (RangeError ''highWaterMark must be a non-negative finite number'')
      | Some h \<Rightarrow>
          (case sz of
             SizeNotCallable \<Rightarrow> Inl (TypeError ''size must be a function or absent'')
           | SizeAbsent \<Rightarrow> Inr (None, h)
           | SizeFunction f \<Rightarrow> Inr (Some f, h)))"

text \<open>
  The stream object after the field initialisers at the head of the \<open>WritableStream\<close>
  constructor, with no writer and no promise made yet and a sink that has not been called.
  The controller's fields get their values in the controller's constructor.
\<close>

definition new_stream :: sys where
  "new_stream = \<lparr>state = Writable, storedError = Undefined, writer_of = None,
     writeRequests = [], inflightWriteRequest = None, closeRequest = None,
     inflightCloseRequest = None, pendingAbortRequest = None, backpressure = None,
     queue = [], started = False, strategySize = None, strategyHWM = 0,
     writers = (\<lambda>_. blank_writer), nextWriter = 0,
     promises = (\<lambda>_. Pending), nextPromise = 0,
     sinkCalls = [], startPending = False, sinkWritePending = 0, sinkClosePending = 0,
     sinkAbortPending = []\<rparr>"

text \<open>
  The constructor's two checks of its caller hold: it is called by the \<open>WritableStream\<close>
  constructor only, on the stream under construction.
\<close>

definition WritableStreamDefaultController_constructor ::
    "size_arg \<Rightarrow> js_number \<Rightarrow> unit M" where
  "WritableStreamDefaultController_constructor sz highWaterMark = seqM [
     modifyM (\<lambda>s. s\<lparr>queue := []\<rparr>),
     modifyM (\<lambda>s. s\<lparr>started := False\<rparr>),
     (case ValidateAndNormalizeQueuingStrategy sz highWaterMark of
        Inl e \<Rightarrow> throwM e
      | Inr (normalizedSize, normalizedHWM) \<Rightarrow> seqM [
          modifyM (\<lambda>s. s\<lparr>strategySize := normalizedSize\<rparr>),
          modifyM (\<lambda>s. s\<lparr>strategyHWM := normalizedHWM\<rparr>)]),
     bindM (getsM WritableStreamDefaultControllerGetBackpressure)
       WritableStreamUpdateBackpressure]"

definition Controller_error :: "js_value \<Rightarrow> unit M" where
  "Controller_error e =
     bindM (getsM state) (\<lambda>st.
       if st = Closed \<or> st = Errored then
         throwM (TypeError (''The stream is '' @ state_name st @ '' and so cannot be errored''))
       else WritableStreamDefaultControllerError e)"

text \<open>
  \<open>InvokeOrNoop(sink, 'start', [controller])\<close> runs the sink's \<open>start\<close>, which may throw
  (\<open>Some e\<close>); otherwise its result settles later.
\<close>

definition WritableStreamDefaultControllerStart :: "js_value option \<Rightarrow> unit M" where
  "WritableStreamDefaultControllerStart startThrows = seqM [
     sink_called SinkStart,
     (case startThrows of
        Some e \<Rightarrow> throwM e
      | None \<Rightarrow> modifyM (\<lambda>s. s\<lparr>startPending := True\<rparr>))]"

subsection \<open>class WritableStream\<close>

text \<open>
  \<open>new WritableStream(underlyingSink, { size, highWaterMark })\<close>: the arguments are the
  \<open>type\<close> property of the sink, \<open>size\<close>, \<open>highWaterMark\<close> (\<open>None\<close> when it is left out;
  the default is 1) and what the sink's \<open>start\<close> throws, if it does. The result is the
  stream or the exception.
\<close>

definition WritableStream_constructor ::
    "js_value \<Rightarrow> size_arg \<Rightarrow> js_number option \<Rightarrow> js_value option \<Rightarrow> unit M" where
  "WritableStream_constructor type sz highWaterMark startThrows = seqM [
     (if type \<noteq> Undefined then throwM (RangeError ''Invalid type is specified'')
      else returnM ()),
     WritableStreamDefaultController_constructor sz
       (case highWaterMark of None \<Rightarrow> Finite 1 | Some h \<Rightarrow> h),
     WritableStreamDefaultControllerStart startThrows]"

definition new_WritableStream ::
    "js_value \<Rightarrow> size_arg \<Rightarrow> js_number option \<Rightarrow> js_value option \<Rightarrow> js_value + sys" where
  "new_WritableStream type sz highWaterMark startThrows =
     (case WritableStream_constructor type sz highWaterMark startThrows new_stream of
        (Inl e, _) \<Rightarrow> Inl e
      | (Inr _, s) \<Rightarrow> Inr s)"

definition Stream_locked :: "sys \<Rightarrow> bool" where
  "Stream_locked s = IsWritableStreamLocked s"

definition Stream_abort :: "js_value \<Rightarrow> nat M" where
  "Stream_abort reason =
     ifM (\<lambda>s. IsWritableStreamLocked s = True)
       (Promise_reject (TypeError ''Cannot abort a stream that already has a writer''))
       (WritableStreamAbort reason)"

definition AcquireWritableStreamDefaultWriter :: "nat M" where
  "AcquireWritableStreamDefaultWriter = WritableStreamDefaultWriter_constructor"

definition Stream_getWriter :: "nat M" where
  "Stream_getWriter = AcquireWritableStreamDefaultWriter"

subsection \<open>The operations of the system\<close>

text \<open>
  What can happen to a stream: a call of a method of the stream, of one of its writers or
  of its controller; a call of one of the abstract operations that the module exports
  (they bypass the checks of the methods); and the settlement of a promise that a sink
  method returned, which runs the callback registered on it.
\<close>

datatype event =
    GetWriter
  | StreamAbort js_value
  | WriterAbort nat js_value
  | WriterClose nat
  | WriterReleaseLock nat
  | WriterWrite nat js_value
  | ControllerError js_value
  | ExportedAbort js_value
  | ExportedControllerError js_value
  | ExportedCloseWithErrorPropagation nat
  | ExportedRelease nat
  | ExportedWrite nat js_value
  | StartFulfilled
  | StartRejected js_value
  | SinkWriteFulfilled
  | SinkWriteRejected js_value
  | SinkCloseFulfilled
  | SinkCloseRejected js_value
  | SinkAbortFulfilled nat
  | SinkAbortRejected nat js_value

definition discard :: "'a M \<Rightarrow> unit M" where
  "discard m = bindM m (\<lambda>_. returnM ())"

fun resolve_each :: "nat list \<Rightarrow> js_value \<Rightarrow> unit M" where
  "resolve_each [] v = returnM ()"
| "resolve_each (p # ps) v = thenM (request_resolve p v) (resolve_each ps v)"

definition take_sink_abort :: "nat \<Rightarrow> nat list M" where
  "take_sink_abort i =
     bindM (getsM (\<lambda>s. if i < length (sinkAbortPending s) then sinkAbortPending s ! i else []))
       (\<lambda>ps.
     thenM (modifyM (\<lambda>s. s\<lparr>sinkAbortPending :=
              take i (sinkAbortPending s) @ drop (Suc i) (sinkAbortPending s)\<rparr>))
       (returnM ps))"

fun run :: "event \<Rightarrow> unit M" where
  "run GetWriter = discard Stream_getWriter"
| "run (StreamAbort reason) = discard (Stream_abort reason)"
| "run (WriterAbort w reason) = discard (Writer_abort w reason)"
| "run (WriterClose w) = discard (Writer_close w)"
| "run (WriterReleaseLock w) = Writer_releaseLock w"
| "run (WriterWrite w chunk) = discard (Writer_write w chunk)"
| "run (ControllerError e) = Controller_error e"
| "run (ExportedAbort reason) = discard (WritableStreamAbort reason)"
| "run (ExportedControllerError e) = WritableStreamDefaultControllerError e"
| "run (ExportedCloseWithErrorPropagation w) =
     discard (WritableStreamDefaultWriterCloseWithErrorPropagation w)"
| "run (ExportedRelease w) = WritableStreamDefaultWriterRelease w"
| "run (ExportedWrite w chunk) = discard (WritableStreamDefaultWriterWrite w chunk)"
| "run StartFulfilled =
     thenM (modifyM (\<lambda>s. s\<lparr>startPending := False\<rparr>)) Start_fulfilled"
| "run (StartRejected r) =
     thenM (modifyM (\<lambda>s. s\<lparr>startPending := False\<rparr>)) (Start_rejected r)"
| "run SinkWriteFulfilled =
     thenM (modifyM (\<lambda>s. s\<lparr>sinkWritePending := sinkWritePending s - 1\<rparr>))
       ProcessWrite_fulfilled"
| "run (SinkWriteRejected reason) =
     thenM (modifyM (\<lambda>s. s\<lparr>sinkWritePending := sinkWritePending s - 1\<rparr>))
       (ProcessWrite_rejected reason)"
| "run SinkCloseFulfilled =
     thenM (modifyM (\<lambda>s. s\<lparr>sinkClosePending := sinkClosePending s - 1\<rparr>))
       WritableStreamFinishInflightClose"
| "run (SinkCloseRejected reason) =
     thenM (modifyM (\<lambda>s. s\<lparr>sinkClosePending := sinkClosePending s - 1\<rparr>))
       (WritableStreamFinishInflightCloseWithError reason)"
| "run (SinkAbortFulfilled i) =
     bindM (take_sink_abort i) (\<lambda>ps. resolve_each ps Undefined)"
| "run (SinkAbortRejected i r) =
     bindM (take_sink_abort i) (\<lambda>ps. reject_each ps r)"

text \<open>
  An operation on a writer needs the writer to exist; a settlement needs the promise of a
  sink method that has not settled.
\<close>

fun enabled :: "event \<Rightarrow> sys \<Rightarrow> bool" where
  "enabled (WriterAbort w _) s = (w < nextWriter s)"
| "enabled (WriterClose w) s = (w < nextWriter s)"
| "enabled (WriterReleaseLock w) s = (w < nextWriter s)"
| "enabled (WriterWrite w _) s = (w < nextWriter s)"
| "enabled (ExportedCloseWithErrorPropagation w) s = (w < nextWriter s)"
| "enabled (ExportedRelease w) s = (w < nextWriter s)"
| "enabled (ExportedWrite w _) s = (w < nextWriter s)"
| "enabled StartFulfilled s = startPending s"
| "enabled (StartRejected _) s = startPending s"
| "enabled SinkWriteFulfilled s = (0 < sinkWritePending s)"
| "enabled (SinkWriteRejected _) s = (0 < sinkWritePending s)"
| "enabled SinkCloseFulfilled s = (0 < sinkClosePending s)"
| "enabled (SinkCloseRejected _) s = (0 < sinkClosePending s)"
| "enabled (SinkAbortFulfilled i) s = (i < length (sinkAbortPending s))"
| "enabled (SinkAbortRejected i _) s = (i < length (sinkAbortPending s))"
| "enabled _ s = True"

definition exec :: "event \<Rightarrow> sys \<Rightarrow> sys" where
  "exec e s = snd (run e s)"

text \<open>The streams that exist: constructed, then operated on.\<close>

inductive reachable :: "sys \<Rightarrow> bool" where
  constructed: "new_WritableStream type sz highWaterMark startThrows = Inr s \<Longrightarrow> reachable s"
| operated: "reachable s \<Longrightarrow> enabled e s \<Longrightarrow> reachable (exec e s)"

text \<open>A sequence of operations, each enabled when its turn comes.\<close>

fun run_all :: "event list \<Rightarrow> sys \<Rightarrow> sys option" where
  "run_all [] s = Some s"
| "run_all (e # es) s = (if enabled e s then run_all es (exec e s) else None)"

section \<open>Reasoning about the operations\<close>

text \<open>
  \<open>wp m Q E s\<close>: run from \<open>s\<close>, the computation \<open>m\<close> either returns \<open>x\<close> in a state with
  \<open>Q x\<close> or throws \<open>e\<close> in a state with \<open>E e\<close>. The rules below compute it along the
  structure of \<open>m\<close>.
\<close>

definition wp :: "'a M \<Rightarrow> ('a \<Rightarrow> sys \<Rightarrow> bool) \<Rightarrow> (js_value \<Rightarrow> sys \<Rightarrow> bool) \<Rightarrow> sys \<Rightarrow> bool" where
  "wp m Q E s = (case m s of (Inr x, s') \<Rightarrow> Q x s' | (Inl e, s') \<Rightarrow> E e s')"

lemma wp_returnM [simp]: "wp (returnM x) Q E = Q x" by (simp add: wp_def returnM_def fun_eq_iff)
lemma wp_throwM [simp]: "wp (throwM e) Q E = E e" by (simp add: wp_def throwM_def fun_eq_iff)
lemma wp_bindM [simp]: "wp (bindM m f) Q E = wp m (\<lambda>x. wp (f x) Q E) E"
  by (simp add: wp_def bindM_def fun_eq_iff split: prod.splits sum.splits)
lemma wp_thenM [simp]: "wp (thenM m k) Q E = wp m (\<lambda>_. wp k Q E) E"
  by (simp add: thenM_def)
lemma wp_seqM_Nil [simp]: "wp (seqM []) Q E = Q ()" by simp
lemma wp_seqM_Cons [simp]: "wp (seqM (m # ms)) Q E = wp m (\<lambda>_. wp (seqM ms) Q E) E" by simp
lemma wp_getsM [simp]: "wp (getsM f) Q E = (\<lambda>s. Q (f s) s)" by (simp add: wp_def getsM_def fun_eq_iff)
lemma wp_modifyM [simp]: "wp (modifyM f) Q E = (\<lambda>s. Q () (f s))" by (simp add: wp_def modifyM_def fun_eq_iff)
lemma wp_ifM [simp]: "wp (ifM c t e) Q E = (\<lambda>s. (c s \<longrightarrow> wp t Q E s) \<and> (\<not> c s \<longrightarrow> wp e Q E s))"
  by (simp add: wp_def ifM_def fun_eq_iff)
lemma wp_whenM [simp]: "wp (whenM c t) Q E = (\<lambda>s. (c s \<longrightarrow> wp t Q E s) \<and> (\<not> c s \<longrightarrow> Q () s))"
  by (simp add: whenM_def fun_eq_iff)
lemma wp_assertM [simp]: "wp (assertM c msg) Q E = (\<lambda>s. (c s \<longrightarrow> Q () s) \<and> (\<not> c s \<longrightarrow> E (AssertionError msg) s))"
  by (simp add: assertM_def fun_eq_iff)
lemma wp_catchM [simp]: "wp (catchM m h) Q E = wp m Q (\<lambda>e. wp (h e) Q E)"
  by (simp add: wp_def catchM_def fun_eq_iff split: prod.splits sum.splits)
lemma wp_discard [simp]: "wp (discard m) Q E = wp m (\<lambda>_. Q ()) E"
  by (simp add: discard_def)
lemma wp_if [simp]: "wp (if b then t else e) Q E = (\<lambda>s. (b \<longrightarrow> wp t Q E s) \<and> (\<not> b \<longrightarrow> wp e Q E s))" by (simp add: fun_eq_iff)
lemma wp_case_option [simp]: "wp (case x of None \<Rightarrow> a | Some y \<Rightarrow> b y) Q E = (\<lambda>s. (x = None \<longrightarrow> wp a Q E s) \<and> (\<forall>y. x = Some y \<longrightarrow> wp (b y) Q E s))"
  by (simp add: fun_eq_iff split: option.splits)
lemma wp_case_size_result [simp]: "wp (case x of SizeReturns n \<Rightarrow> a n | SizeThrows y \<Rightarrow> b y) Q E = (\<lambda>s. (\<forall>n. x = SizeReturns n \<longrightarrow> wp (a n) Q E s) \<and> (\<forall>y. x = SizeThrows y \<longrightarrow> wp (b y) Q E s))"
  by (simp add: fun_eq_iff split: size_result.splits)
lemma wp_case_write_record [simp]: "wp (case x of CloseSentinel \<Rightarrow> a | WriteRecord y \<Rightarrow> b y) Q E = (\<lambda>s. (x = CloseSentinel \<longrightarrow> wp a Q E s) \<and> (\<forall>y. x = WriteRecord y \<longrightarrow> wp (b y) Q E s))"
  by (simp add: fun_eq_iff split: write_record.splits)
lemma wp_Let [simp]: "wp (let x = v in f x) Q E = wp (f v) Q E" by simp

text \<open>A property of the state an operation ends in, however it ends.\<close>

lemma snd_wp: "P (snd (m s)) = wp m (\<lambda>_. P) (\<lambda>_. P) s"
  by (simp add: wp_def split: prod.splits sum.splits)

lemmas promise_defs = newPromise_def Promise_resolve_def Promise_reject_def request_resolve_def
  request_reject_def

lemmas writer_promise_defs = updWriter_def
  defaultWriterClosedPromiseInitialize_def defaultWriterClosedPromiseInitializeAsRejected_def
  defaultWriterClosedPromiseInitializeAsResolved_def defaultWriterClosedPromiseReject_def
  defaultWriterClosedPromiseResetToRejected_def defaultWriterClosedPromiseResolve_def
  defaultWriterReadyPromiseInitialize_def defaultWriterReadyPromiseInitializeAsRejected_def
  defaultWriterReadyPromiseInitializeAsResolved_def defaultWriterReadyPromiseReject_def
  defaultWriterReadyPromiseReset_def defaultWriterReadyPromiseResetToRejected_def
  defaultWriterReadyPromiseResolve_def

lemmas stream_defs = EnqueueValueWithSize_def PeekQueueValue_def DequeueValue_def sink_called_def
  IsWritableStreamLocked_def WritableStreamIsReadyForWrites_def
  WritableStreamHasOperationMarkedInflight_def WritableStreamMarkCloseRequestInflight_def
  WritableStreamMarkFirstWriteRequestInflight_def WritableStreamRejectClosedPromiseIfAny_def
  WritableStreamRejectPendingAbortRequest_def WritableStreamRejectPromisesInReactionToError_def
  WritableStreamUpdateBackpressure_def WritableStreamDefaultWriterEnsureReadyPromiseRejectedWith_def
  WritableStreamFinishAbort_def WritableStreamDefaultControllerAbort_def then_settle_def
  WritableStreamAbort_def WritableStreamAddWriteRequest_def WritableStreamFinishInflightWrite_def
  WritableStreamFinishInflightWriteWithError_def WritableStreamFinishInflightClose_def
  WritableStreamFinishInflightCloseWithError_def

lemmas controller_defs = 
  WritableStreamDefaultControllerError_def WritableStreamDefaultControllerErrorIfNeeded_def
  WritableStreamDefaultControllerProcessClose_def WritableStreamDefaultControllerProcessWrite_def
  WritableStreamDefaultControllerAdvanceQueueIfNeeded_def ProcessWrite_fulfilled_def
  ProcessWrite_rejected_def Start_fulfilled_def Start_rejected_def
  WritableStreamDefaultControllerClose_def WritableStreamDefaultControllerWrite_def
  Controller_error_def

lemmas writer_defs = WritableStreamDefaultWriterAbort_def WritableStreamDefaultWriterClose_def
  WritableStreamDefaultWriterCloseWithErrorPropagation_def WritableStreamDefaultWriterRelease_def
  WritableStreamDefaultWriterWrite_def WritableStreamDefaultWriter_constructor_def
  Writer_abort_def Writer_close_def Writer_releaseLock_def Writer_write_def
  Stream_abort_def AcquireWritableStreamDefaultWriter_def Stream_getWriter_def take_sink_abort_def

lemma wp_reject_each [simp]:
  "wp (reject_each ps e) Q E = (\<lambda>s. Q () (s\<lparr>promises := fold (\<lambda>p f. f(p := settle (Rejected e) (f p))) ps (promises s)\<rparr>))"
proof
  fix s show "wp (reject_each ps e) Q E s = Q () (s\<lparr>promises := fold (\<lambda>p f. f(p := settle (Rejected e) (f p))) ps (promises s)\<rparr>)"
    by (induction ps arbitrary: s) (simp_all add: promise_defs)
qed

lemma wp_resolve_each [simp]:
  "wp (resolve_each ps v) Q E = (\<lambda>s. Q () (s\<lparr>promises := fold (\<lambda>p f. f(p := settle (Fulfilled v) (f p))) ps (promises s)\<rparr>))"
proof
  fix s show "wp (resolve_each ps v) Q E s = Q () (s\<lparr>promises := fold (\<lambda>p f. f(p := settle (Fulfilled v) (f p))) ps (promises s)\<rparr>)"
    by (induction ps arbitrary: s) (simp_all add: promise_defs)
qed

lemmas all_defs = promise_defs writer_promise_defs stream_defs controller_defs writer_defs

lemmas monad_defs = returnM_def throwM_def bindM_def thenM_def getsM_def modifyM_def ifM_def
  whenM_def assertM_def catchM_def discard_def

lemmas constructor_defs = new_WritableStream_def WritableStream_constructor_def
  WritableStreamDefaultController_constructor_def ValidateAndNormalizeQueuingStrategy_def
  WritableStreamDefaultControllerStart_def WritableStreamDefaultControllerGetBackpressure_def
  WritableStreamDefaultControllerGetDesiredSize_def GetTotalQueueSize_def

section \<open>Once out of \<open>writable\<close>, the state stays\<close>

definition K1 :: "sys \<Rightarrow> bool" where
  "K1 s = (state s = Closed \<longrightarrow> pendingAbortRequest s = None)"

lemma state_cases: "state s = Writable \<or> state s = Closed \<or> state s = Errored"
  by (cases "state s") auto

lemma new_WritableStream_wp:
  "new_WritableStream type sz highWaterMark startThrows = Inr s \<Longrightarrow>
   (\<And>s'. wp (WritableStream_constructor type sz highWaterMark startThrows) (\<lambda>_ s'. P s') (\<lambda>_ _. True) new_stream) \<Longrightarrow> P s"
  by (auto simp: new_WritableStream_def wp_def split: prod.splits sum.splits)

lemma K1_constructed:
  "new_WritableStream type sz highWaterMark startThrows = Inr s \<Longrightarrow> K1 s"
  by (erule new_WritableStream_wp) (simp add: K1_def constructor_defs all_defs new_stream_def split: sum.splits option.splits)

lemma K1_step: "K1 s \<Longrightarrow> K1 (exec e s)"
  unfolding exec_def
  apply (subst snd_wp)
  apply (cases e)
  apply (simp_all add: K1_def all_defs)
  done

lemma reachable_K1: "reachable s \<Longrightarrow> K1 s"
  by (induction rule: reachable.induct) (auto intro: K1_constructed K1_step)

lemma left_writable_stays:
  assumes "K1 s" "state s \<noteq> Writable"
  shows "state (exec e s) = state s"
proof -
  from assms state_cases [of s]
  have "wp (run e) (\<lambda>_ s'. state s' = state s) (\<lambda>_ s'. state s' = state s) s"
    by (cases e) (auto simp add: K1_def all_defs)
  then show ?thesis
    unfolding exec_def by (subst snd_wp)
qed

lemma reachable_run_all: "reachable s \<Longrightarrow> run_all es s = Some s' \<Longrightarrow> reachable s'"
  by (induction es arbitrary: s) (auto intro: reachable.operated split: if_splits)

text \<open>
  C1. The transition out of \<open>writable\<close> is irreversible and happens at most once: from a
  stream that exists and is \<open>closed\<close> or \<open>errored\<close>, no sequence of operations (method
  calls, exported abstract operations, settlements of the sink's promises), however each of
  them ends, changes the state. A sequence of one operation is the case of a single step.
\<close>

theorem state_leaves_writable_once:
  "reachable s \<Longrightarrow> state s \<noteq> Writable \<Longrightarrow> run_all es s = Some s' \<Longrightarrow> state s' = state s"
proof (induction es arbitrary: s)
  case Nil
  then show ?case by simp
next
  case (Cons e es)
  from Cons.prems have en: "enabled e s" and rest: "run_all es (exec e s) = Some s'"
    by (auto split: if_splits)
  from Cons.prems(1) en have r: "reachable (exec e s)" by (rule reachable.operated)
  from Cons.prems have st: "state (exec e s) = state s"
    by (simp add: left_writable_stays reachable_K1)
  with Cons.IH [OF r _ rest] Cons.prems(2) show ?case by simp
qed

text \<open>
  A stream made with the defaults, and the same stream after the sink's \<open>start\<close> has
  rejected.
\<close>

definition example_stream :: sys where
  "example_stream = snd (WritableStream_constructor Undefined SizeAbsent None None new_stream)"

lemma example_stream_eq:
  "example_stream = new_stream\<lparr>backpressure := Some False, strategyHWM := 1,
     sinkCalls := [SinkStart], startPending := True\<rparr>"
  by (simp add: example_stream_def constructor_defs all_defs monad_defs new_stream_def)

lemma example_stream_reachable: "reachable example_stream"
  by (rule reachable.constructed [of Undefined SizeAbsent None None])
     (simp add: example_stream_def new_WritableStream_def split: prod.splits sum.splits,
      simp add: constructor_defs all_defs monad_defs new_stream_def)

definition errored_example :: sys where
  "errored_example = exec (StartRejected (JSString ''boom'')) example_stream"


lemma errored_example_reachable: "reachable errored_example"
  unfolding errored_example_def
  by (rule reachable.operated [OF example_stream_reachable]) (simp add: example_stream_eq)

lemma errored_example_state: "state errored_example = Errored"
  by (simp add: errored_example_def example_stream_eq exec_def all_defs monad_defs new_stream_def)

theorem state_leaves_writable_once_witness:
  "reachable errored_example \<and> state errored_example = Errored \<and>
   run_all [GetWriter, WriterWrite 0 (JSString ''a''), WriterClose 0, ControllerError Undefined,
     ExportedControllerError Undefined] errored_example \<noteq> None \<and>
   state (the (run_all [GetWriter, WriterWrite 0 (JSString ''a''), WriterClose 0,
     ControllerError Undefined, ExportedControllerError Undefined] errored_example)) = Errored"
proof -
  let ?es = "[GetWriter, WriterWrite 0 (JSString ''a''), WriterClose 0, ControllerError Undefined,
     ExportedControllerError Undefined]"
  have "run_all ?es errored_example \<noteq> None"
    by (simp add: errored_example_def example_stream_eq exec_def all_defs monad_defs
        new_stream_def blank_writer_def)
  then obtain s' where s': "run_all ?es errored_example = Some s'"
    by blast
  have "state s' = state errored_example"
    using state_leaves_writable_once [OF errored_example_reachable _ s']
    by (simp add: errored_example_state)
  with s' errored_example_reachable errored_example_state show ?thesis
    by simp
qed


section \<open>A write after a close that is in flight\<close>

text \<open>
  The default stream after its sink has started, with a writer, after the writer's
  \<open>close()\<close>: the queue was empty, so the close request went to the sink at once.
\<close>

definition closing_example :: sys where
  "closing_example = exec (WriterClose 0) (exec GetWriter (exec StartFulfilled example_stream))"

lemmas example_defs = example_stream_eq exec_def all_defs monad_defs new_stream_def blank_writer_def
  Let_def

lemma closing_example_reachable: "reachable closing_example"
  unfolding closing_example_def
  by (intro reachable.operated example_stream_reachable) (simp_all add: example_defs)

lemma closing_example_slots:
  "state closing_example = Writable \<and> writer_of closing_example = Some 0 \<and>
   ownerWritableStream (writers closing_example 0) \<and>
   closeRequest closing_example = None \<and> inflightCloseRequest closing_example = Some 0 \<and>
   inflightWriteRequest closing_example = None \<and> queue closing_example = [] \<and>
   sinkCalls closing_example = [SinkStart, SinkClose] \<and> nextWriter closing_example = 1"
  by (simp add: closing_example_def example_defs)

text \<open>
  C5, on the code: the writer of the example has called \<open>close()\<close> on a writable stream
  and the close request is in flight. Its next \<open>write('x')\<close> is not rejected: the promise
  returned is pending, and the sink's \<open>write\<close> is called with \<open>'x'\<close> after the sink's
  \<open>close\<close>. The check in \<open>write\<close> reads \<open>_closeRequest\<close> only, which is \<open>undefined\<close> again
  once the request is in flight.
\<close>

theorem write_after_close_reaches_sink:
  "reachable closing_example \<and>
   closeRequest closing_example = None \<and> inflightCloseRequest closing_example = Some 0 \<and>
   fst (Writer_write 0 (JSString ''x'') closing_example) = Inr 1 \<and>
   promises (snd (Writer_write 0 (JSString ''x'') closing_example)) 1 = Pending \<and>
   sinkCalls (snd (Writer_write 0 (JSString ''x'') closing_example)) =
     [SinkStart, SinkClose, SinkWrite (JSString ''x'')]"
  using closing_example_reachable
  by (simp add: closing_example_def example_defs)

text \<open>
  C2, on the code: after that write both \<open>_inflightCloseRequest\<close> and
  \<open>_inflightWriteRequest\<close> are set and the sink has a \<open>close\<close> and a \<open>write\<close> that have not
  settled: advancing the queue looks at \<open>_inflightWriteRequest\<close> only. When the sink then
  fulfils the close and the write, the callback of the write fails its own assertion that
  the stream is writable.
\<close>

theorem write_and_close_both_in_flight:
  "reachable (exec (WriterWrite 0 (JSString ''x'')) closing_example) \<and>
   inflightCloseRequest (exec (WriterWrite 0 (JSString ''x'')) closing_example) = Some 0 \<and>
   inflightWriteRequest (exec (WriterWrite 0 (JSString ''x'')) closing_example) = Some 1 \<and>
   sinkClosePending (exec (WriterWrite 0 (JSString ''x'')) closing_example) = 1 \<and>
   sinkWritePending (exec (WriterWrite 0 (JSString ''x'')) closing_example) = 1 \<and>
   fst (run SinkWriteFulfilled (exec SinkCloseFulfilled
     (exec (WriterWrite 0 (JSString ''x'')) closing_example))) = Inl (AssertionError [])"
proof -
  have "reachable (exec (WriterWrite 0 (JSString ''x'')) closing_example)"
    by (rule reachable.operated [OF closing_example_reachable])
       (simp add: closing_example_slots)
  then show ?thesis
    by (simp add: closing_example_def example_defs)
qed

section \<open>Constructing a stream on a sink with a \<open>type\<close>\<close>

text \<open>\<open>e instanceof TypeError\<close>.\<close>

fun is_TypeError :: "js_value \<Rightarrow> bool" where
  "is_TypeError (TypeError _) = True"
| "is_TypeError _ = False"

text \<open>
  C8, as stated: with a \<open>type\<close> other than \<open>undefined\<close> the constructor throws a type
  error. It throws, but a \<open>RangeError\<close>: for the sink type \<open>'bytes'\<close> the exception is not a
  \<open>TypeError\<close>.
\<close>

theorem reserved_type_counterexample:
  "\<not> (case new_WritableStream (JSString ''bytes'') SizeAbsent None None of
        Inl e \<Rightarrow> is_TypeError e
      | Inr s \<Rightarrow> False)"
  by (simp add: constructor_defs monad_defs)

text \<open>
  C8, amended: constructing a stream on a sink whose \<open>type\<close> is any value other than
  \<open>undefined\<close> fails synchronously with the \<open>RangeError\<close> "Invalid type is specified",
  whatever the strategy and the sink's \<open>start\<close> are; no stream is made.
\<close>

theorem reserved_type_range_error:
  "type \<noteq> Undefined \<Longrightarrow>
   new_WritableStream type sz highWaterMark startThrows =
     Inl (RangeError ''Invalid type is specified'')"
  by (simp add: new_WritableStream_def WritableStream_constructor_def monad_defs)

theorem reserved_type_range_error_witness:
  "JSString ''bytes'' \<noteq> Undefined \<and>
   new_WritableStream (JSString ''bytes'') SizeAbsent None None =
     Inl (RangeError ''Invalid type is specified'')"
  using reserved_type_range_error [of "JSString ''bytes''" SizeAbsent None None]
  by simp

section \<open>The desired size a writer reports\<close>


text \<open>
  More streams to try the operations on, each the default stream after some operations:
  two chunks written; the second writer's lock released; closed; aborted while a write is
  in flight; and that stream again, after the writer has released its lock.
\<close>

definition writing_example :: sys where
  "writing_example =
     exec (WriterWrite 0 (JSString ''b'')) (exec (WriterWrite 0 (JSString ''a''))
       (exec GetWriter (exec StartFulfilled example_stream)))"

definition released_example :: sys where
  "released_example = exec (WriterReleaseLock 0) (exec GetWriter example_stream)"

definition closed_example :: sys where
  "closed_example = exec SinkCloseFulfilled closing_example"

definition aborting_example :: sys where
  "aborting_example =
     exec (WriterAbort 0 (JSString ''stop'')) (exec (WriterWrite 0 (JSString ''a''))
       (exec GetWriter (exec StartFulfilled example_stream)))"

lemmas more_example_defs = writing_example_def released_example_def closed_example_def
  aborting_example_def closing_example_def errored_example_def


section \<open>The promises of a new writer\<close>


text \<open>
  The default stream with a high-water mark of 0, so under backpressure from the start; and
  streams whose writer has released its lock while an abort is pending and after the close.
\<close>

definition full_example :: sys where
  "full_example =
     snd (WritableStream_constructor Undefined SizeAbsent (Some (Finite 0)) None new_stream)"

definition aborting_released_example :: sys where
  "aborting_released_example = exec (WriterReleaseLock 0) aborting_example"

definition closed_released_example :: sys where
  "closed_released_example = exec (WriterReleaseLock 0) closed_example"

lemmas released_example_defs = full_example_def aborting_released_example_def
  closed_released_example_def more_example_defs constructor_defs example_defs


section \<open>What \<open>abort\<close> returns when there is nothing to abort\<close>

text \<open>The promise a method returns, as it is when the method returns.\<close>

definition returned_promise :: "nat M \<Rightarrow> sys \<Rightarrow> promise option" where
  "returned_promise m s =
     (case m s of (Inr p, s') \<Rightarrow> Some (promises s' p) | (Inl e, s') \<Rightarrow> None)"

text \<open>
  C4. \<open>abort(reason)\<close>, on a writer that holds the lock or on a stream without a writer, runs
  \<open>WritableStreamAbort\<close>, whose first three cases are, in this order: on a closed stream
  the promise returned is resolved with \<open>undefined\<close>; on an errored stream it is rejected
  with the stored error; on a writable stream with a pending abort request it is a new
  promise rejected with the \<open>TypeError\<close> "Aborted" made by this call, whatever the reason
  and the promise of the recorded request, which stays as it is. On a stream with a writer,
  the stream's own \<open>abort\<close> returns a promise rejected with the lock error, a \<open>TypeError\<close>,
  whatever the state.
\<close>

theorem abort_early_returns:
  "(ownerWritableStream (writers s w) \<longrightarrow>
      Writer_abort w reason s = WritableStreamAbort reason s) \<and>
   (writer_of s = None \<longrightarrow> Stream_abort reason s = WritableStreamAbort reason s) \<and>
   (state s = Closed \<longrightarrow>
      returned_promise (WritableStreamAbort reason) s = Some (Fulfilled Undefined)) \<and>
   (state s = Errored \<longrightarrow>
      returned_promise (WritableStreamAbort reason) s = Some (Rejected (storedError s))) \<and>
   (state s = Writable \<and> pendingAbortRequest s \<noteq> None \<longrightarrow>
      returned_promise (WritableStreamAbort reason) s = Some (Rejected (TypeError ''Aborted'')) \<and>
      fst (WritableStreamAbort reason s) = Inr (nextPromise s) \<and>
      pendingAbortRequest (snd (WritableStreamAbort reason s)) = pendingAbortRequest s) \<and>
   (writer_of s \<noteq> None \<longrightarrow>
      returned_promise (Stream_abort reason) s =
        Some (Rejected (TypeError ''Cannot abort a stream that already has a writer'')))"
  by (simp add: Writer_abort_def WritableStreamDefaultWriterAbort_def Stream_abort_def
      IsWritableStreamLocked_def WritableStreamAbort_def returned_promise_def promise_defs
      monad_defs Let_def)

theorem abort_early_returns_witness:
  "ownerWritableStream (writers closed_example 0) \<and> state closed_example = Closed \<and>
   returned_promise (Writer_abort 0 Undefined) closed_example = Some (Fulfilled Undefined) \<and>
   writer_of errored_example = None \<and> state errored_example = Errored \<and>
   returned_promise (Stream_abort Undefined) errored_example =
     Some (Rejected (JSString ''boom'')) \<and>
   ownerWritableStream (writers aborting_example 0) \<and> state aborting_example = Writable \<and>
   pendingAbortRequest aborting_example = Some (AbortRequest 1 (JSString ''stop'')) \<and>
   returned_promise (Writer_abort 0 (JSString ''again'')) aborting_example =
     Some (Rejected (TypeError ''Aborted'')) \<and>
   writer_of aborting_example \<noteq> None \<and>
   returned_promise (Stream_abort Undefined) aborting_example =
     Some (Rejected (TypeError ''Cannot abort a stream that already has a writer''))"
proof -
  have a: "ownerWritableStream (writers closed_example 0) \<and> state closed_example = Closed"
    by (simp add: released_example_defs)
  have b: "writer_of errored_example = None \<and> state errored_example = Errored \<and>
      storedError errored_example = JSString ''boom''"
    by (simp add: released_example_defs)
  have c: "ownerWritableStream (writers aborting_example 0) \<and> state aborting_example = Writable \<and>
      pendingAbortRequest aborting_example = Some (AbortRequest 1 (JSString ''stop'')) \<and>
      writer_of aborting_example \<noteq> None"
    by (simp add: released_example_defs)
  show ?thesis
    using abort_early_returns [of closed_example 0 Undefined]
      abort_early_returns [of errored_example 0 Undefined]
      abort_early_returns [of aborting_example 0 "JSString ''again''"]
      abort_early_returns [of aborting_example 0 Undefined] a b c
    by (simp add: returned_promise_def)
qed

section \<open>Backpressure and the \<open>ready\<close> promise\<close>







lemma settle_eq_Pending [simp]: "(settle x p = Pending) = (p = Pending \<and> x = Pending)"
  by (auto simp: settle_def)














































end
